theory Spec2Isabelle
  imports Main "HOL-Library.Sublist" "HOL-Library.Word"
begin

section \<open>NinjaDroid: the command-line front end (\<open>ninjadroid.py\<close>)\<close>

text \<open>
  The script parses its command line, builds an \<open>APK\<close> object from the target file and
  either prints the APK's description as JSON or extracts everything into a directory
  with the help of six external use cases. This theory embeds the functions of
  \<open>ninjadroid.py\<close> one by one, under their own names.

  What the script only calls (the \<open>APK\<close> class, the use cases, \<open>json.dumps\<close>,
  \<open>os.path.exists\<close>, \<open>os.makedirs\<close>) is a parameter of the model, collected in an
  environment record; what it does to the outside world is recorded as a list of events.
  The \<open>APK\<close> class itself is described in the specification of the decoding core; a
  second part of the theory writes down what that description says of it.
\<close>

subsection \<open>Python strings\<close>

text \<open>
  A Python \<open>str\<close> is a sequence of Unicode code points; slicing and \<open>len\<close> count code
  points. A code point is a natural number here, and \<open>str\<close> reads an ASCII literal.
\<close>

type_synonym pystr = "nat list"

definition str :: "string \<Rightarrow> pystr" where
  "str s = map of_char s"

text \<open>\<open>s.rfind(c)\<close> for a single character: the highest index holding \<open>c\<close>, or \<open>-1\<close>.\<close>

definition rfind :: "pystr \<Rightarrow> nat \<Rightarrow> int" where
  "rfind s c =
     (case filter (\<lambda>i. s ! i = c) (rev [0..<length s]) of
        [] \<Rightarrow> - 1
      | i # _ \<Rightarrow> int i)"

text \<open>
  \<open>os.path.basename\<close> (the POSIX one, \<open>posixpath.basename\<close>):
  \<^verbatim>\<open>i = p.rfind('/') + 1; return p[i:]\<close>
\<close>

definition basename :: "pystr \<Rightarrow> pystr" where
  "basename p = drop (nat (rfind p 0x2F + 1)) p"

text \<open>
  The slice \<open>s[0:-n]\<close> for \<open>n > 0\<close>: the stop index \<open>len(s) - n\<close> is clamped at \<open>0\<close>, so a
  string of fewer than \<open>n\<close> characters gives the empty string.
\<close>

definition slice_to_minus :: "pystr \<Rightarrow> nat \<Rightarrow> pystr" where
  "slice_to_minus s n = (let stop = int (length s) - int n in take (nat (max 0 stop)) s)"

subsection \<open>The regular expression \<open>\\.apk\<close> under \<open>re.IGNORECASE\<close>\<close>

text \<open>
  With \<open>re.IGNORECASE\<close> on a \<open>str\<close> pattern, a literal of the pattern is compared with
  the lower-cased character of the subject. The model of the lower-casing is exact on
  every code point whose lower case is an ASCII character: the letters \<open>A\<close> to \<open>Z\<close>,
  U+0130 (capital I with dot above) and U+212A (the Kelvin sign). It leaves the other
  code points alone; none of them lowers to an ASCII character.
\<close>

definition sre_lower_unicode :: "nat \<Rightarrow> nat" where
  "sre_lower_unicode c =
     (if 0x41 \<le> c \<and> c \<le> 0x5A then c + 32
      else if c = 0x130 then 0x69
      else if c = 0x212A then 0x6B
      else c)"

text \<open>The pattern, a sequence of literals, matched at the head of the subject.\<close>

fun match_here :: "pystr \<Rightarrow> pystr \<Rightarrow> bool" where
  "match_here [] s = True"
| "match_here (l # ls) [] = False"
| "match_here (l # ls) (c # cs) = (sre_lower_unicode c = l \<and> match_here ls cs)"

text \<open>\<open>re.search\<close>: the pattern is tried at every position, from the left.\<close>

fun re_search_ignorecase :: "pystr \<Rightarrow> pystr \<Rightarrow> bool" where
  "re_search_ignorecase pat [] = match_here pat []"
| "re_search_ignorecase pat (c # cs) =
     (match_here pat (c # cs) \<or> re_search_ignorecase pat cs)"

subsection \<open>\<open>get_apk_filename_without_extension\<close>\<close>

text \<open>
  \<^verbatim>\<open>
  def get_apk_filename_without_extension(filepath: str) -> str:
      filename = os.path.basename(filepath)
      if re.search("\\.apk", filepath, re.IGNORECASE):
          filename = str(filename[0:-4])
      return filename
  \<close>
\<close>

definition get_apk_filename_without_extension :: "pystr \<Rightarrow> pystr" where
  "get_apk_filename_without_extension filepath =
     (let filename = basename filepath in
      if re_search_ignorecase (str ''.apk'') filepath
      then slice_to_minus filename 4
      else filename)"

subsection \<open>Exceptions, events and the world\<close>

text \<open>
  The exceptions \<open>read_target_file\<close> tells apart. \<open>APKParsingError\<close> is listed before
  \<open>ParsingError\<close> in the \<open>try\<close> statement, so \<open>ParsingError\<close> stands for a
  \<open>ParsingError\<close> that is not an \<open>APKParsingError\<close>. \<open>OSError\<close> is what \<open>os.makedirs\<close>
  raises (\<open>FileNotFoundError\<close> for the empty path, \<open>FileExistsError\<close>,
  \<open>PermissionError\<close> and the like are \<open>OSError\<close>s); \<open>OtherException\<close> is any other
  exception. Neither \<open>except\<close> clause catches these two.
\<close>

datatype exn = APKParsingError | ParsingError | OSError | OtherException

text \<open>The logging levels the script uses, with their numbers in \<open>logging\<close>.\<close>

datatype level = DEBUG | INFO | ERROR

fun levelno :: "level \<Rightarrow> nat" where
  "levelno DEBUG = 10"
| "levelno INFO = 20"
| "levelno ERROR = 40"

text \<open>
  The six use cases, each with the keyword arguments of its \<open>execute\<close> call, in the
  order \<open>input_filepath\<close>, \<open>apk\<close>, \<open>input_filename\<close>, \<open>output_directory\<close>.
\<close>

datatype 'apk use_case =
    LaunchApkTool pystr pystr
  | LaunchDex2Jar pystr pystr pystr
  | ExtractCertificateFile 'apk pystr
  | ExtractDexFile 'apk pystr
  | GetApkInfoInHtml 'apk pystr pystr
  | GetApkInfoInJson 'apk pystr pystr

text \<open>
  What the script does to the outside, in the order it does it: a log record that the
  logger lets through, a call of \<open>APK(filepath, no_string_processing, logger)\<close>, a
  \<open>print\<close>, a call of \<open>os.makedirs\<close> (whether it returns or raises), the \<open>execute\<close> of
  a use case.
\<close>

datatype 'apk event =
    Log level pystr
  | NewAPK pystr bool
  | Print pystr
  | MakeDirs pystr
  | Execute "'apk use_case"

record ('apk, 'fs) world =
  logger_level :: level
  filesystem :: 'fs
  trace :: "'apk event list"

text \<open>
  The code the script calls but does not contain. \<open>APK\<close> is the constructor of the
  parser class: it reads the file, so its outcome depends on the file system; it
  either builds the object or raises. \<open>json_dumps\<close> is
  \<open>json.dumps(_, sort_keys=True, ensure_ascii=False, indent=4)\<close>. The use cases and
  \<open>os.makedirs\<close> change the file system. \<open>os.makedirs\<close> returns or raises, and leaves
  a file system behind in either case (it may have made some of the parent
  directories before it fails). The use cases, whose code is not at hand, \<open>json.dumps\<close>
  and \<open>print\<close> are taken to return.
\<close>

record ('apk, 'fs, 'json) env =
  APK :: "'fs \<Rightarrow> pystr \<Rightarrow> bool \<Rightarrow> exn + 'apk"
  dump :: "'apk \<Rightarrow> 'json"
  json_dumps :: "'json \<Rightarrow> pystr"
  path_exists :: "'fs \<Rightarrow> pystr \<Rightarrow> bool"
  makedirs :: "'fs \<Rightarrow> pystr \<Rightarrow> exn option \<times> 'fs"
  execute :: "'apk use_case \<Rightarrow> 'fs \<Rightarrow> 'fs"

definition emit :: "'apk event \<Rightarrow> ('apk, 'fs) world \<Rightarrow> ('apk, 'fs) world" where
  "emit e w = w\<lparr>trace := trace w @ [e]\<rparr>"

text \<open>\<open>logger.debug\<close>, \<open>logger.info\<close>, \<open>logger.error\<close>: a record below the logger's level is dropped.\<close>

definition logger_log :: "level \<Rightarrow> pystr \<Rightarrow> ('apk, 'fs) world \<Rightarrow> ('apk, 'fs) world" where
  "logger_log lvl msg w =
     (if levelno (logger_level w) \<le> levelno lvl then emit (Log lvl msg) w else w)"

text \<open>
  The parts of a trace: what was printed, which use cases ran, which directories
  \<open>os.makedirs\<close> was called on, and so on.
\<close>

fun printed :: "'apk event list \<Rightarrow> pystr list" where
  "printed [] = []"
| "printed (Print s # es) = s # printed es"
| "printed (_ # es) = printed es"

fun executed :: "'apk event list \<Rightarrow> 'apk use_case list" where
  "executed [] = []"
| "executed (Execute u # es) = u # executed es"
| "executed (_ # es) = executed es"

fun makedirs_calls :: "'apk event list \<Rightarrow> pystr list" where
  "makedirs_calls [] = []"
| "makedirs_calls (MakeDirs d # es) = d # makedirs_calls es"
| "makedirs_calls (_ # es) = makedirs_calls es"

fun constructed :: "'apk event list \<Rightarrow> (pystr \<times> bool) list" where
  "constructed [] = []"
| "constructed (NewAPK p b # es) = (p, b) # constructed es"
| "constructed (_ # es) = constructed es"

fun logged :: "'apk event list \<Rightarrow> (level \<times> pystr) list" where
  "logged [] = []"
| "logged (Log l m # es) = (l, m) # logged es"
| "logged (_ # es) = logged es"

text \<open>The \<open>output_directory\<close> argument of a use case.\<close>

fun output_directory_of :: "'apk use_case \<Rightarrow> pystr" where
  "output_directory_of (LaunchApkTool _ d) = d"
| "output_directory_of (LaunchDex2Jar _ _ d) = d"
| "output_directory_of (ExtractCertificateFile _ d) = d"
| "output_directory_of (ExtractDexFile _ d) = d"
| "output_directory_of (GetApkInfoInHtml _ _ d) = d"
| "output_directory_of (GetApkInfoInJson _ _ d) = d"

subsection \<open>\<open>get_args\<close>\<close>

text \<open>
  The parser declares one positional argument (\<open>target\<close>) and the options
  \<open>-e/--extract\<close> (\<open>nargs="?"\<close>, \<open>const="./"\<close>, no default),
  \<open>-ns/--no-string-processing\<close> (\<open>store_false\<close>, so its default is \<open>True\<close>),
  \<open>-v/--verbose\<close> (\<open>store_true\<close>), \<open>-V/--version\<close> and, from \<open>argparse\<close> itself,
  \<open>-h/--help\<close>.

  A command line is modelled as \<open>argparse\<close> has recognised it: the list, in order, of
  the positional strings and of the occurrences of the declared options, an
  \<open>--extract\<close> with the value it took, if any. How \<open>argparse\<close> gets there from the raw
  strings (abbreviated long options, \<open>--extract=DIR\<close>) is the library's business.
\<close>

datatype cli_item =
    Positional pystr
  | Extract "pystr option"
  | NoStringProcessing
  | Verbose
  | Version
  | Help

definition VERSION :: pystr where
  "VERSION = str ''3.0''"

text \<open>The ways \<open>parse_args\<close> leaves the program, and the exit status of each.\<close>

datatype parse_exit = ShowVersion pystr | ShowHelp | UsageError

fun exit_status :: "parse_exit \<Rightarrow> int" where
  "exit_status (ShowVersion _) = 0"
| "exit_status ShowHelp = 0"
| "exit_status UsageError = 2"

text \<open>
  The namespace while parsing. \<open>extras\<close> collects the positional strings left over once
  \<open>target\<close> is filled; \<open>argparse\<close> reports them when it has gone through the line.
\<close>

record parse_state =
  ps_target :: "pystr option"
  ps_target_output_directory :: "pystr option"
  ps_no_string_processing :: bool
  ps_verbose :: bool
  extras :: "pystr list"

definition defaults :: parse_state where
  "defaults = \<lparr>ps_target = None, ps_target_output_directory = None,
     ps_no_string_processing = True, ps_verbose = False, extras = []\<rparr>"

text \<open>
  Each occurrence runs its action at once, from left to right: \<open>store\<close> overwrites,
  \<open>version\<close> and \<open>help\<close> print and exit.
\<close>

fun parse_items :: "cli_item list \<Rightarrow> parse_state \<Rightarrow> parse_exit + parse_state" where
  "parse_items [] st = Inr st"
| "parse_items (Positional s # items) st =
     (case ps_target st of
        None \<Rightarrow> parse_items items (st\<lparr>ps_target := Some s\<rparr>)
      | Some _ \<Rightarrow> parse_items items (st\<lparr>extras := extras st @ [s]\<rparr>))"
| "parse_items (Extract v # items) st =
     parse_items items
       (st\<lparr>ps_target_output_directory :=
             Some (case v of None \<Rightarrow> str ''./'' | Some d \<Rightarrow> d)\<rparr>)"
| "parse_items (NoStringProcessing # items) st =
     parse_items items (st\<lparr>ps_no_string_processing := False\<rparr>)"
| "parse_items (Verbose # items) st = parse_items items (st\<lparr>ps_verbose := True\<rparr>)"
| "parse_items (Version # items) st = Inl (ShowVersion (str ''NinjaDroid '' @ VERSION))"
| "parse_items (Help # items) st = Inl ShowHelp"

text \<open>The \<open>Namespace\<close> that \<open>parse_args\<close> returns.\<close>

record args =
  target :: pystr
  target_output_directory :: "pystr option"
  no_string_processing :: bool
  verbose :: bool

text \<open>
  At the end of the line a missing \<open>target\<close> and left-over strings are usage errors
  (exit status 2).
\<close>

definition get_args :: "cli_item list \<Rightarrow> parse_exit + args" where
  "get_args argv =
     (case parse_items argv defaults of
        Inl e \<Rightarrow> Inl e
      | Inr st \<Rightarrow>
          (case ps_target st of
             None \<Rightarrow> Inl UsageError
           | Some t \<Rightarrow>
               if extras st \<noteq> [] then Inl UsageError
               else Inr \<lparr>target = t,
                         target_output_directory = ps_target_output_directory st,
                         no_string_processing = ps_no_string_processing st,
                         verbose = ps_verbose st\<rparr>))"

subsection \<open>\<open>read_target_file\<close>\<close>

text \<open>
  \<^verbatim>\<open>
  def read_target_file(filepath: str, no_string_processing: bool) -> Optional[APK]:
      apk = None
      logger.debug("Reading %s...", filepath)
      try:
          apk = APK(filepath, no_string_processing, logger)
      except APKParsingError:
          logger.error("The target file ('%s') must be an APK package!", filepath)
      except ParsingError:
          logger.error("The target file ('%s') must be an existing, readable file!", filepath)
      return apk
  \<close>
  The result is the exception that escapes (one that neither \<open>except\<close> clause catches),
  or the value returned, together with the world as the call leaves it.
\<close>

definition apostrophe :: nat where
  "apostrophe = 0x27"

definition reading_message :: "pystr \<Rightarrow> pystr" where
  "reading_message filepath = str ''Reading '' @ filepath @ str ''...''"

definition must_be_apk_message :: "pystr \<Rightarrow> pystr" where
  "must_be_apk_message filepath =
     str ''The target file ('' @ [apostrophe] @ filepath @ [apostrophe] @
     str '') must be an APK package!''"

definition must_be_file_message :: "pystr \<Rightarrow> pystr" where
  "must_be_file_message filepath =
     str ''The target file ('' @ [apostrophe] @ filepath @ [apostrophe] @
     str '') must be an existing, readable file!''"

definition read_target_file ::
  "('apk, 'fs, 'json) env \<Rightarrow> pystr \<Rightarrow> bool \<Rightarrow> ('apk, 'fs) world \<Rightarrow>
     (exn + 'apk option) \<times> ('apk, 'fs) world" where
  "read_target_file environ filepath no_string_processing' w =
     (let w1 = logger_log DEBUG (reading_message filepath) w;
          w2 = emit (NewAPK filepath no_string_processing') w1
      in case APK environ (filesystem w2) filepath no_string_processing' of
           Inr apk \<Rightarrow> (Inr (Some apk), w2)
         | Inl APKParsingError \<Rightarrow>
             (Inr None, logger_log ERROR (must_be_apk_message filepath) w2)
         | Inl ParsingError \<Rightarrow>
             (Inr None, logger_log ERROR (must_be_file_message filepath) w2)
         | Inl e \<Rightarrow> (Inl e, w2))"

subsection \<open>\<open>print_apk_info\<close>\<close>

text \<open>
  \<^verbatim>\<open>
  def print_apk_info(apk: APK):
      apk_info = json.dumps(apk.dump(), sort_keys=True, ensure_ascii=False, indent=4)
      print(apk_info)
  \<close>
\<close>

definition print_apk_info ::
  "('apk, 'fs, 'json) env \<Rightarrow> 'apk \<Rightarrow> ('apk, 'fs) world \<Rightarrow> ('apk, 'fs) world" where
  "print_apk_info environ apk w =
     (let apk_info = json_dumps environ (dump environ apk) in emit (Print apk_info) w)"

subsection \<open>\<open>create_output_directory_if_needed\<close>\<close>

text \<open>
  \<^verbatim>\<open>
  def create_output_directory_if_needed(output_directory: str):
      if not os.path.exists(output_directory):
          logger.info("Creating %s/...", output_directory)
          os.makedirs(output_directory)
  \<close>
\<close>

definition creating_message :: "pystr \<Rightarrow> pystr" where
  "creating_message output_directory = str ''Creating '' @ output_directory @ str ''/...''"

text \<open>
  The functions from here on return the exception that leaves them, if any (\<open>None\<close>
  for a normal return), and the world.
\<close>

definition os_makedirs ::
  "('apk, 'fs, 'json) env \<Rightarrow> pystr \<Rightarrow> ('apk, 'fs) world \<Rightarrow>
     exn option \<times> ('apk, 'fs) world" where
  "os_makedirs environ d w =
     (case makedirs environ (filesystem w) d of
        (raised, fs) \<Rightarrow> (raised, emit (MakeDirs d) (w\<lparr>filesystem := fs\<rparr>)))"

definition create_output_directory_if_needed ::
  "('apk, 'fs, 'json) env \<Rightarrow> pystr \<Rightarrow> ('apk, 'fs) world \<Rightarrow>
     exn option \<times> ('apk, 'fs) world" where
  "create_output_directory_if_needed environ output_directory w =
     (if \<not> path_exists environ (filesystem w) output_directory
      then os_makedirs environ output_directory
             (logger_log INFO (creating_message output_directory) w)
      else (None, w))"

text \<open>
  The exception that leaves \<open>create_output_directory_if_needed\<close> on a given file
  system, if any: none when the path exists, else what \<open>os.makedirs\<close> raises.
\<close>

definition directory_step_outcome ::
  "('apk, 'fs, 'json) env \<Rightarrow> 'fs \<Rightarrow> pystr \<Rightarrow> exn option" where
  "directory_step_outcome environ fs output_directory =
     (if path_exists environ fs output_directory then None
      else fst (makedirs environ fs output_directory))"

subsection \<open>\<open>extract_apk_info_to_directory\<close>\<close>

text \<open>
  \<^verbatim>\<open>
  def extract_apk_info_to_directory(apk: APK, filepath: str, filename: str, output_directory: str):
      if output_directory == "./":
          output_directory += filename
      create_output_directory_if_needed(output_directory)
      LaunchApkTool(logger).execute(input_filepath=filepath, output_directory=output_directory)
      LaunchDex2Jar(logger).execute(input_filepath=filepath, input_filename=filename, output_directory=output_directory)
      ExtractCertificateFile(logger).execute(apk=apk, output_directory=output_directory)
      ExtractDexFile(logger).execute(apk=apk, output_directory=output_directory)
      GetApkInfoInHtml(logger).execute(apk=apk, input_filename=filename, output_directory=output_directory)
      GetApkInfoInJson(logger).execute(apk=apk, input_filename=filename, output_directory=output_directory)
  \<close>
\<close>

definition run_use_case ::
  "('apk, 'fs, 'json) env \<Rightarrow> 'apk use_case \<Rightarrow> ('apk, 'fs) world \<Rightarrow> ('apk, 'fs) world" where
  "run_use_case environ u w =
     emit (Execute u) (w\<lparr>filesystem := execute environ u (filesystem w)\<rparr>)"

definition extract_apk_info_to_directory ::
  "('apk, 'fs, 'json) env \<Rightarrow> 'apk \<Rightarrow> pystr \<Rightarrow> pystr \<Rightarrow> pystr \<Rightarrow>
     ('apk, 'fs) world \<Rightarrow> exn option \<times> ('apk, 'fs) world" where
  "extract_apk_info_to_directory environ apk filepath filename output_directory w =
     (let output_directory =
            (if output_directory = str ''./'' then output_directory @ filename
             else output_directory)
      in case create_output_directory_if_needed environ output_directory w of
           (Some e, w) \<Rightarrow> (Some e, w)
         | (None, w) \<Rightarrow>
             (let w = run_use_case environ (LaunchApkTool filepath output_directory) w;
                  w = run_use_case environ
                        (LaunchDex2Jar filepath filename output_directory) w;
                  w = run_use_case environ (ExtractCertificateFile apk output_directory) w;
                  w = run_use_case environ (ExtractDexFile apk output_directory) w;
                  w = run_use_case environ
                        (GetApkInfoInHtml apk filename output_directory) w;
                  w = run_use_case environ
                        (GetApkInfoInJson apk filename output_directory) w
              in (None, w)))"

text \<open>The six \<open>execute\<close> calls of \<open>extract_apk_info_to_directory\<close>, in the order of the source.\<close>

definition use_case_calls :: "'apk \<Rightarrow> pystr \<Rightarrow> pystr \<Rightarrow> pystr \<Rightarrow> 'apk use_case list" where
  "use_case_calls apk filepath filename output_directory =
     [LaunchApkTool filepath output_directory,
      LaunchDex2Jar filepath filename output_directory,
      ExtractCertificateFile apk output_directory,
      ExtractDexFile apk output_directory,
      GetApkInfoInHtml apk filename output_directory,
      GetApkInfoInJson apk filename output_directory]"

subsection \<open>\<open>main\<close>\<close>

text \<open>
  \<^verbatim>\<open>
  def main():
      args = get_args()
      if args.verbose:
          logger.setLevel(logging.DEBUG)

      apk = read_target_file(args.target, args.no_string_processing)
      if apk is None:
          return 1

      filename = get_apk_filename_without_extension(args.target)
      if args.target_output_directory is None:
          print_apk_info(apk)
      else:
          extract_apk_info_to_directory(apk, args.target, filename, args.target_output_directory)
      return 0
  \<close>
  \<open>main\<close> returns a status, or is left by the \<open>SystemExit\<close> of \<open>parse_args\<close>, or by an
  exception: one of the \<open>APK\<close> constructor that \<open>read_target_file\<close> does not catch, or
  one of \<open>os.makedirs\<close>.
\<close>

datatype outcome = Returned int | SystemExit parse_exit | Raised exn

definition main ::
  "('apk, 'fs, 'json) env \<Rightarrow> cli_item list \<Rightarrow> ('apk, 'fs) world \<Rightarrow>
     outcome \<times> ('apk, 'fs) world" where
  "main environ argv w =
     (case get_args argv of
        Inl e \<Rightarrow> (SystemExit e, w)
      | Inr args \<Rightarrow>
          (let w = (if verbose args then w\<lparr>logger_level := DEBUG\<rparr> else w) in
           case read_target_file environ (target args) (no_string_processing args) w of
             (Inl e, w) \<Rightarrow> (Raised e, w)
           | (Inr None, w) \<Rightarrow> (Returned 1, w)
           | (Inr (Some apk), w) \<Rightarrow>
               (let filename = get_apk_filename_without_extension (target args) in
                case target_output_directory args of
                  None \<Rightarrow> (Returned 0, print_apk_info environ apk w)
                | Some output_directory \<Rightarrow>
                    (case extract_apk_info_to_directory environ apk (target args) filename
                            output_directory w of
                       (Some e, w) \<Rightarrow> (Raised e, w)
                     | (None, w) \<Rightarrow> (Returned 0, w)))))"

text \<open>The value the last \<open>--extract\<close> on the command line took, if there is an \<open>--extract\<close>.\<close>

fun last_extract :: "cli_item list \<Rightarrow> pystr option option" where
  "last_extract [] = None"
| "last_extract (Extract v # items) =
     (case last_extract items of None \<Rightarrow> Some v | Some v' \<Rightarrow> Some v')"
| "last_extract (_ # items) = last_extract items"

section \<open>The Container Reader\<close>

text \<open>
  The Container Reader is described in the specification of the decoding core; its code
  is not among the sources embedded above. What follows is written from that
  description.
\<close>

type_synonym byte = "8 word"

text \<open>Modelled from the spec: the errors of the Container Reader (its \<open>ContainerError\<close>).\<close>

datatype container_error = NotAnArchive | TruncatedArchive | UnsupportedCompression

text \<open>
  Modelled from the spec: the fixed signature of the end-of-central-directory record.
  The description does not spell it out; it is the one of the ZIP format, the bytes
  \<open>50 4B 05 06\<close>.
\<close>

definition EOCD_SIGNATURE :: "byte list" where
  "EOCD_SIGNATURE = [0x50, 0x4B, 0x05, 0x06]"

definition signature_at :: "byte list \<Rightarrow> nat \<Rightarrow> bool" where
  "signature_at buffer i = (take 4 (drop i buffer) = EOCD_SIGNATURE)"

text \<open>
  Modelled from the spec: the search for the record, "scanning backward from the end of
  the buffer for its fixed signature, since a comment field of variable length may
  follow it". The scan goes from position \<open>i\<close> down to \<open>0\<close> and stops at the first
  position that holds the signature.
\<close>

fun scan_backward :: "byte list \<Rightarrow> nat \<Rightarrow> nat option" where
  "scan_backward buffer 0 = (if signature_at buffer 0 then Some 0 else None)"
| "scan_backward buffer (Suc i) =
     (if signature_at buffer (Suc i) then Some (Suc i) else scan_backward buffer i)"

definition find_end_of_central_directory :: "byte list \<Rightarrow> nat option" where
  "find_end_of_central_directory buffer =
     (if length buffer < 4 then None else scan_backward buffer (length buffer - 4))"

text \<open>
  Modelled from the spec: \<open>open(bytes) -> Result<Archive, ContainerError>\<close> of the
  Container Reader. It "reads the end-of-central-directory record [...], then walks the
  given number of central-directory records sequentially", and it "fails with
  \<open>NotAnArchive\<close> if the end-of-central-directory signature is absent; fails with
  \<open>TruncatedArchive\<close> if a declared record extends past the buffer end". The walk over
  the records, whose layout the description leaves to the ZIP format, is a parameter:
  it gets the buffer and the position of the record found, and returns the archive or
  an error.
\<close>

definition container_reader_open ::
  "(byte list \<Rightarrow> nat \<Rightarrow> container_error + 'archive) \<Rightarrow> byte list \<Rightarrow>
     container_error + 'archive" where
  "container_reader_open walk_central_directory buffer =
     (case find_end_of_central_directory buffer of
        None \<Rightarrow> Inl NotAnArchive
      | Some pos \<Rightarrow> walk_central_directory buffer pos)"

section \<open>The APK class, from its description\<close>

text \<open>
  The \<open>APK\<close> class (the Package Aggregator of the description, with the String
  Classifier it calls) is not among the sources embedded above. This section writes
  down what the description says of the three things the script relies on: the
  constructor, the effect of its string-processing argument, and \<open>dump\<close>. What the
  description leaves to the binary formats (the decoders, the digests, the two
  patterns) is a parameter.
\<close>

text \<open>The values \<open>json.dumps\<close> serialises; a mapping is the list of its entries.\<close>

datatype json =
    JNull
  | JBool bool
  | JInt int
  | JString pystr
  | JList "json list"
  | JObject "(string \<times> json) list"

fun keys :: "json \<Rightarrow> string list" where
  "keys (JObject entries) = map fst entries"
| "keys _ = []"

text \<open>
  Modelled from the spec: the Package, as far as the output of section 6 needs it: the
  file name, the size, the three hashes of the whole file, and the manifest, the
  certificates and the dex summary in the form they have in the output. The last field
  holds the URL and the shell-command candidates; they are "present only when string
  processing is enabled", so it is \<open>None\<close> when it is disabled.
\<close>

record package =
  pkg_file_name :: pystr
  pkg_size :: nat
  pkg_md5 :: pystr
  pkg_sha1 :: pystr
  pkg_sha256 :: pystr
  pkg_manifest :: json
  pkg_cert :: json
  pkg_dex :: json
  pkg_classified :: "(pystr list \<times> pystr list) option"

text \<open>
  Modelled from the spec: \<open>dump\<close> of the \<open>APK\<close>, the "structured mapping with (at
  minimum) these keys": \<open>file_name\<close> (string), \<open>size\<close> (integer), \<open>md5\<close>/\<open>sha1\<close>/\<open>sha256\<close>
  (hex strings), \<open>manifest\<close>, \<open>cert\<close>, \<open>dex\<close>, and \<open>urls\<close>, \<open>shell_commands\<close>, "ordered
  lists of strings (present only when string processing is enabled)".
\<close>

definition APK_dump :: "package \<Rightarrow> json" where
  "APK_dump p =
     JObject
       ([(''file_name'', JString (pkg_file_name p)),
         (''size'', JInt (int (pkg_size p))),
         (''md5'', JString (pkg_md5 p)),
         (''sha1'', JString (pkg_sha1 p)),
         (''sha256'', JString (pkg_sha256 p)),
         (''manifest'', pkg_manifest p),
         (''cert'', pkg_cert p),
         (''dex'', pkg_dex p)] @
        (case pkg_classified p of
           None \<Rightarrow> []
         | Some (urls, shell_commands) \<Rightarrow>
             [(''urls'', JList (map JString urls)),
              (''shell_commands'', JList (map JString shell_commands))]))"

text \<open>
  Modelled from the spec: the String Classifier,
  \<open>classify(string_table, enabled: bool) -> ClassifiedStrings\<close>. "When disabled, returns
  two empty sets without scanning. When enabled, applies a URL pattern [...] and a
  shell-command pattern [...] to every decoded Dex string; a string may match at most
  one category here, first match by declaration order above wins if both patterns would
  match the same string." The two patterns are parameters.
\<close>

definition classify ::
  "(pystr \<Rightarrow> bool) \<Rightarrow> (pystr \<Rightarrow> bool) \<Rightarrow> pystr list \<Rightarrow> bool \<Rightarrow> pystr list \<times> pystr list" where
  "classify url_pattern shell_command_pattern string_table enabled =
     (if \<not> enabled then ([], [])
      else (filter url_pattern string_table,
            filter (\<lambda>s. \<not> url_pattern s \<and> shell_command_pattern s) string_table))"

text \<open>
  Modelled from the spec: what the aggregator calls. \<open>read_input\<close> gives the bytes of a
  readable file; \<open>central_directory_walk\<close> is the second half of the Container Reader;
  the manifest decoder and the certificate extractor give their part of the output
  (whatever it is when the entry is missing or malformed); the dex decoder gives its
  part of the output and, if it succeeded, the decoded string table; the hash engine is
  \<open>digest(bytes, algorithm)\<close>.
\<close>

record ('fs, 'archive) decoders =
  read_input :: "'fs \<Rightarrow> pystr \<Rightarrow> byte list option"
  central_directory_walk :: "byte list \<Rightarrow> nat \<Rightarrow> container_error + 'archive"
  manifest_decoder :: "'archive \<Rightarrow> json"
  certificate_extractor :: "'archive \<Rightarrow> json"
  dex_decoder :: "'archive \<Rightarrow> json \<times> pystr list option"
  hash_engine :: "byte list \<Rightarrow> string \<Rightarrow> pystr"
  url_pattern :: "pystr \<Rightarrow> bool"
  shell_command_pattern :: "pystr \<Rightarrow> bool"

text \<open>
  Modelled from the spec: the Package Aggregator,
  \<open>build(filename, bytes, enabled_string_processing: bool) -> Result<Package, ParsingError>\<close>.
  "Sequence: validate readability and non-emptiness of the input, Container
  Reader.open, Manifest Decoder.decode, Dex Decoder.decode, Certificate
  Extractor.extract, Hash Engine.digest over whole buffer, String Classifier.classify
  (if dex succeeded and the flag is enabled). A ZIP that fails Container Reader.open is
  not an APK at all: surfaces as \<open>APKParsingError\<close>." An input that fails the
  validation is the other top-level failure, \<open>ParsingError\<close> ("not a readable file").
  With the flag enabled and no string table to classify, the two lists are empty.
\<close>

definition build ::
  "('fs, 'archive) decoders \<Rightarrow> pystr \<Rightarrow> byte list option \<Rightarrow> bool \<Rightarrow> exn + package" where
  "build dec filename input enabled_string_processing =
     (case input of
        None \<Rightarrow> Inl ParsingError
      | Some bytes \<Rightarrow>
          if bytes = [] then Inl ParsingError
          else
            (case container_reader_open (central_directory_walk dec) bytes of
               Inl _ \<Rightarrow> Inl APKParsingError
             | Inr archive \<Rightarrow>
                 Inr \<lparr>pkg_file_name = filename,
                      pkg_size = length bytes,
                      pkg_md5 = hash_engine dec bytes ''md5'',
                      pkg_sha1 = hash_engine dec bytes ''sha1'',
                      pkg_sha256 = hash_engine dec bytes ''sha256'',
                      pkg_manifest = manifest_decoder dec archive,
                      pkg_cert = certificate_extractor dec archive,
                      pkg_dex = fst (dex_decoder dec archive),
                      pkg_classified =
                        (if enabled_string_processing
                         then Some
                           (case snd (dex_decoder dec archive) of
                              None \<Rightarrow> ([], [])
                            | Some string_table \<Rightarrow>
                                classify (url_pattern dec) (shell_command_pattern dec)
                                  string_table True)
                         else None)\<rparr>))"

text \<open>
  Modelled from the spec: the constructor \<open>APK(filepath, no_string_processing, logger)\<close>
  as the script calls it: the aggregator on the bytes of the file, with the second
  argument as \<open>enabled_string_processing\<close>.
\<close>

definition APK_constructor ::
  "('fs, 'archive) decoders \<Rightarrow> 'fs \<Rightarrow> pystr \<Rightarrow> bool \<Rightarrow> exn + package" where
  "APK_constructor dec fs filepath no_string_processing' =
     build dec filepath (read_input dec fs filepath) no_string_processing'"

section \<open>A small environment to run the model in\<close>

text \<open>
  The file system is the list of the existing paths, each with the bytes of the file,
  or with \<open>None\<close> for a directory. \<open>os.makedirs\<close> raises on the empty path, as the real
  one does, and adds a directory otherwise; each use case leaves one file in its
  output directory. The decoders are stubs: the dex decoder finds three strings, a URL
  is what starts with \<open>http://\<close>, and the only shell command is \<open>su\<close>.
\<close>

definition example_decoders :: "((pystr \<times> byte list option) list, nat) decoders" where
  "example_decoders =
     \<lparr>read_input = (\<lambda>files p. case map_of files p of Some (Some bytes) \<Rightarrow> Some bytes | _ \<Rightarrow> None),
      central_directory_walk = (\<lambda>buffer pos. Inr pos),
      manifest_decoder = (\<lambda>archive. JNull),
      certificate_extractor = (\<lambda>archive. JList []),
      dex_decoder = (\<lambda>archive. (JNull, Some [str ''http://a.b'', str ''su'', str ''main''])),
      hash_engine = (\<lambda>bytes algorithm. str algorithm),
      url_pattern = (\<lambda>s. take 7 s = str ''http://''),
      shell_command_pattern = (\<lambda>s. s = str ''su'')\<rparr>"

definition example_env ::
  "(package, (pystr \<times> byte list option) list, json) env" where
  "example_env =
     \<lparr>APK = APK_constructor example_decoders,
      dump = APK_dump,
      json_dumps = (\<lambda>j. concat (map str (keys j))),
      path_exists = (\<lambda>files p. p \<in> set (map fst files)),
      makedirs = (\<lambda>files p. if p = [] then (Some OSError, files) else (None, files @ [(p, None)])),
      execute = (\<lambda>u files. files @ [(output_directory_of u @ str ''/out'', Some [])])\<rparr>"

definition example_world :: "(package, (pystr \<times> byte list option) list) world" where
  "example_world =
     \<lparr>logger_level = INFO,
      filesystem =
        [(str ''app.apk'', Some [0x50, 0x4B, 0x05, 0x06]),
         (str ''notes.txt'', Some [0x68, 0x69])],
      trace = []\<rparr>"

text \<open>The \<open>APK\<close> object that the constructor builds from \<open>app.apk\<close>.\<close>

definition example_package :: "bool \<Rightarrow> package" where
  "example_package enabled =
     \<lparr>pkg_file_name = str ''app.apk'',
      pkg_size = 4,
      pkg_md5 = str ''md5'',
      pkg_sha1 = str ''sha1'',
      pkg_sha256 = str ''sha256'',
      pkg_manifest = JNull,
      pkg_cert = JList [],
      pkg_dex = JNull,
      pkg_classified = (if enabled then Some ([str ''http://a.b''], [str ''su'']) else None)\<rparr>"

section \<open>Strings and the file name\<close>

lemma match_here_prefix:
  "match_here pat s \<longleftrightarrow> prefix pat (map sre_lower_unicode s)"
  by (induction pat s rule: match_here.induct) auto

text \<open>
  The search succeeds exactly when the pattern is a contiguous part of the lower-cased
  subject.
\<close>

lemma re_search_ignorecase_sublist:
  "re_search_ignorecase pat s \<longleftrightarrow> sublist pat (map sre_lower_unicode s)"
  by (induction s) (auto simp: match_here_prefix sublist_Cons_right)

lemma slice_to_minus_take: "slice_to_minus s n = take (length s - n) s"
proof -
  have "nat (max 0 (int (length s) - int n)) = length s - n" by linarith
  then show ?thesis by (simp add: slice_to_minus_def Let_def)
qed

text \<open>The characters that the literals of \<open>\\.apk\<close> match.\<close>

lemma sre_lower_unicode_dot_apk:
  "sre_lower_unicode c = 0x2E \<longleftrightarrow> c = 0x2E"
  "sre_lower_unicode c = 0x61 \<longleftrightarrow> c = 0x61 \<or> c = 0x41"
  "sre_lower_unicode c = 0x70 \<longleftrightarrow> c = 0x70 \<or> c = 0x50"
  "sre_lower_unicode c = 0x6B \<longleftrightarrow> c = 0x6B \<or> c = 0x4B \<or> c = 0x212A"
  by (auto simp: sre_lower_unicode_def)

lemma rfind_snoc:
  "rfind (xs @ [x]) c = (if x = c then int (length xs) else rfind xs c)"
proof -
  have "filter (\<lambda>i. (xs @ [x]) ! i = c) (rev [0..<length xs]) =
        filter (\<lambda>i. xs ! i = c) (rev [0..<length xs])"
    by (rule filter_cong) (auto simp: nth_append)
  then show ?thesis by (simp add: rfind_def)
qed

lemma rfind_bounds: "- 1 \<le> rfind s c \<and> rfind s c < int (length s)"
proof (induction s rule: rev_induct)
  case Nil
  show ?case by (simp add: rfind_def)
next
  case (snoc x xs)
  then show ?case by (simp add: rfind_snoc)
qed

text \<open>The basename is what follows the last slash: the whole path if there is none.\<close>

lemma basename_takeWhile: "basename p = rev (takeWhile (\<lambda>c. c \<noteq> 0x2F) (rev p))"
proof (induction p rule: rev_induct)
  case Nil
  then show ?case by (simp add: basename_def)
next
  case (snoc x xs)
  show ?case
  proof (cases "x = 0x2F")
    case True
    then show ?thesis by (simp add: basename_def rfind_snoc nat_add_distrib)
  next
    case False
    have "nat (rfind xs 0x2F + 1) \<le> length xs"
      using rfind_bounds [of xs "0x2F"] by linarith
    with False snoc show ?thesis by (simp add: basename_def rfind_snoc)
  qed
qed

text \<open>
  Claim C8. For every target file path, \<open>get_apk_filename_without_extension\<close> returns
  the basename of the path without its last four characters when \<open>.apk\<close> occurs
  somewhere in the whole path, in any letter case (so also when it occurs in a
  directory name only, or in the middle of the name), and the basename as it is
  otherwise. A basename of fewer than four characters becomes the empty string.
\<close>

theorem get_apk_filename_without_extension_spec:
  "get_apk_filename_without_extension filepath =
     (if sublist (str ''.apk'') (map sre_lower_unicode filepath)
      then take (length (basename filepath) - 4) (basename filepath)
      else basename filepath)"
  by (simp add: get_apk_filename_without_extension_def Let_def
      re_search_ignorecase_sublist slice_to_minus_take)

theorem get_apk_filename_without_extension_spec_witness:
  "get_apk_filename_without_extension (str ''dl/App.ApK'') = str ''App'' \<and>
   get_apk_filename_without_extension (str ''/sdcard/.APK.d/notes.txt'') = str ''notes'' \<and>
   get_apk_filename_without_extension (str ''my.apk.d/a'') = [] \<and>
   get_apk_filename_without_extension (str ''dl/app.ap'' @ [0x212A]) = str ''app'' \<and>
   get_apk_filename_without_extension (str ''dl/app.zip'') = str ''app.zip''"
proof -
  have b: "basename (str ''dl/App.ApK'') = str ''App.ApK''"
    "basename (str ''/sdcard/.APK.d/notes.txt'') = str ''notes.txt''"
    "basename (str ''my.apk.d/a'') = str ''a''"
    "basename (str ''dl/app.ap'' @ [0x212A]) = str ''app.ap'' @ [0x212A]"
    "basename (str ''dl/app.zip'') = str ''app.zip''"
    by (simp_all add: basename_takeWhile str_def)
  have s: "sublist (str ''.apk'') (map sre_lower_unicode (str ''dl/App.ApK''))"
    "sublist (str ''.apk'') (map sre_lower_unicode (str ''/sdcard/.APK.d/notes.txt''))"
    "sublist (str ''.apk'') (map sre_lower_unicode (str ''my.apk.d/a''))"
    "sublist (str ''.apk'') (map sre_lower_unicode (str ''dl/app.ap'' @ [0x212A]))"
    "\<not> sublist (str ''.apk'') (map sre_lower_unicode (str ''dl/app.zip''))"
    by (simp_all add: str_def sre_lower_unicode_def sublist_Cons_right)
  show ?thesis
    using get_apk_filename_without_extension_spec [of "str ''dl/App.ApK''"]
      get_apk_filename_without_extension_spec [of "str ''/sdcard/.APK.d/notes.txt''"]
      get_apk_filename_without_extension_spec [of "str ''my.apk.d/a''"]
      get_apk_filename_without_extension_spec [of "str ''dl/app.ap'' @ [0x212A]"]
      get_apk_filename_without_extension_spec [of "str ''dl/app.zip''"]
    by (simp only: b s if_True if_False) (simp add: str_def)
qed

section \<open>Traces\<close>

lemma printed_append: "printed (xs @ ys) = printed xs @ printed ys"
  by (induction xs rule: printed.induct) simp_all

lemma executed_append: "executed (xs @ ys) = executed xs @ executed ys"
  by (induction xs rule: executed.induct) simp_all

lemma makedirs_calls_append: "makedirs_calls (xs @ ys) = makedirs_calls xs @ makedirs_calls ys"
  by (induction xs rule: makedirs_calls.induct) simp_all

lemma constructed_append: "constructed (xs @ ys) = constructed xs @ constructed ys"
  by (induction xs rule: constructed.induct) simp_all

lemma logged_append: "logged (xs @ ys) = logged xs @ logged ys"
  by (induction xs rule: logged.induct) simp_all

lemmas observe_append =
  printed_append executed_append makedirs_calls_append constructed_append logged_append

lemma emit_simps:
  "trace (emit e w) = trace w @ [e]"
  "filesystem (emit e w) = filesystem w"
  "logger_level (emit e w) = logger_level w"
  by (simp_all add: emit_def)

lemma logger_log_simps:
  "trace (logger_log lvl msg w) =
     trace w @ (if levelno (logger_level w) \<le> levelno lvl then [Log lvl msg] else [])"
  "filesystem (logger_log lvl msg w) = filesystem w"
  "logger_level (logger_log lvl msg w) = logger_level w"
  by (simp_all add: logger_log_def emit_simps)

lemma levelno_le_ERROR: "levelno l \<le> 40"
  by (cases l) simp_all

lemma levelno_le_DEBUG: "levelno l \<le> 10 \<longleftrightarrow> l = DEBUG"
  by (cases l) simp_all

lemma read_target_file_filesystem:
  "filesystem (snd (read_target_file environ filepath b w)) = filesystem w"
  by (simp add: read_target_file_def Let_def emit_simps logger_log_simps
      split: sum.splits exn.splits)

lemma read_target_file_fst:
  "fst (read_target_file environ filepath b w) =
     (case APK environ (filesystem w) filepath b of
        Inr apk \<Rightarrow> Inr (Some apk)
      | Inl APKParsingError \<Rightarrow> Inr None
      | Inl ParsingError \<Rightarrow> Inr None
      | Inl e \<Rightarrow> Inl e)"
  by (simp add: read_target_file_def Let_def emit_simps logger_log_simps
      split: sum.splits exn.splits)

lemma read_target_file_trace:
  "trace (snd (read_target_file environ filepath b w)) =
     trace w @
     (if logger_level w = DEBUG then [Log DEBUG (reading_message filepath)] else []) @
     [NewAPK filepath b] @
     (case APK environ (filesystem w) filepath b of
        Inl APKParsingError \<Rightarrow> [Log ERROR (must_be_apk_message filepath)]
      | Inl ParsingError \<Rightarrow> [Log ERROR (must_be_file_message filepath)]
      | _ \<Rightarrow> [])"
  by (simp add: read_target_file_def Let_def emit_simps logger_log_simps levelno_le_ERROR
      levelno_le_DEBUG split: sum.splits exn.splits)

lemma messages_differ: "must_be_apk_message filepath \<noteq> must_be_file_message filepath"
  by (simp add: must_be_apk_message_def must_be_file_message_def str_def)

lemma parse_items_no_string_processing:
  "parse_items argv st = Inr st' \<Longrightarrow>
     ps_no_string_processing st' =
       (ps_no_string_processing st \<and> NoStringProcessing \<notin> set argv)"
  by (induction argv st rule: parse_items.induct) (auto split: option.splits)

lemma parse_items_target_output_directory:
  "parse_items argv st = Inr st' \<Longrightarrow>
     ps_target_output_directory st' =
       (case last_extract argv of
          None \<Rightarrow> ps_target_output_directory st
        | Some None \<Rightarrow> Some (str ''./'')
        | Some (Some d) \<Rightarrow> Some d)"
  by (induction argv st rule: parse_items.induct) (auto split: option.splits)

lemma get_args_no_string_processing:
  "get_args argv = Inr a \<Longrightarrow> no_string_processing a = (NoStringProcessing \<notin> set argv)"
  by (auto simp: get_args_def defaults_def split: sum.splits option.splits if_splits
      dest!: parse_items_no_string_processing)

lemma get_args_target_output_directory:
  "get_args argv = Inr a \<Longrightarrow>
     target_output_directory a =
       (case last_extract argv of
          None \<Rightarrow> None
        | Some None \<Rightarrow> Some (str ''./'')
        | Some (Some d) \<Rightarrow> Some d)"
  by (auto simp: get_args_def defaults_def split: sum.splits option.splits if_splits
      dest!: parse_items_target_output_directory)

lemma print_apk_info_simps:
  "trace (print_apk_info environ apk w) = trace w @ [Print (json_dumps environ (dump environ apk))]"
  "filesystem (print_apk_info environ apk w) = filesystem w"
  by (simp_all add: print_apk_info_def emit_simps)

lemma create_output_directory_if_needed_fst:
  "fst (create_output_directory_if_needed environ d w) =
     directory_step_outcome environ (filesystem w) d"
  by (simp add: create_output_directory_if_needed_def os_makedirs_def logger_log_simps
      directory_step_outcome_def split: prod.splits)

lemma create_output_directory_if_needed_trace:
  "trace (snd (create_output_directory_if_needed environ d w)) =
     trace w @
     (if path_exists environ (filesystem w) d
      then []
      else (if levelno (logger_level w) \<le> 20 then [Log INFO (creating_message d)] else []) @
           [MakeDirs d])"
  by (simp add: create_output_directory_if_needed_def os_makedirs_def emit_simps
      logger_log_simps split: prod.splits)

lemma create_output_directory_if_needed_filesystem:
  "filesystem (snd (create_output_directory_if_needed environ d w)) =
     (if path_exists environ (filesystem w) d then filesystem w
      else snd (makedirs environ (filesystem w) d))"
  by (simp add: create_output_directory_if_needed_def os_makedirs_def emit_simps
      logger_log_simps split: prod.splits)

lemma run_use_case_simps:
  "trace (run_use_case environ u w) = trace w @ [Execute u]"
  "filesystem (run_use_case environ u w) = execute environ u (filesystem w)"
  by (simp_all add: run_use_case_def emit_simps)

lemma extract_apk_info_to_directory_fst:
  "fst (extract_apk_info_to_directory environ apk filepath filename d w) =
     fst (create_output_directory_if_needed environ
            (if d = str ''./'' then str ''./'' @ filename else d) w)"
  by (simp add: extract_apk_info_to_directory_def Let_def split: prod.splits option.splits)

lemma extract_apk_info_to_directory_trace:
  "trace (snd (extract_apk_info_to_directory environ apk filepath filename d w)) =
     trace (snd (create_output_directory_if_needed environ
              (if d = str ''./'' then str ''./'' @ filename else d) w)) @
     (case fst (create_output_directory_if_needed environ
              (if d = str ''./'' then str ''./'' @ filename else d) w) of
        None \<Rightarrow>
          map Execute
            (use_case_calls apk filepath filename
               (if d = str ''./'' then str ''./'' @ filename else d))
      | Some e \<Rightarrow> [])"
  by (simp add: extract_apk_info_to_directory_def Let_def run_use_case_simps use_case_calls_def
      split: prod.splits option.splits)

lemma extract_apk_info_to_directory_filesystem:
  "filesystem (snd (extract_apk_info_to_directory environ apk filepath filename d w)) =
     (case fst (create_output_directory_if_needed environ
              (if d = str ''./'' then str ''./'' @ filename else d) w) of
        None \<Rightarrow>
          fold (execute environ)
            (use_case_calls apk filepath filename
               (if d = str ''./'' then str ''./'' @ filename else d))
            (filesystem (snd (create_output_directory_if_needed environ
               (if d = str ''./'' then str ''./'' @ filename else d) w)))
      | Some e \<Rightarrow>
          filesystem (snd (create_output_directory_if_needed environ
            (if d = str ''./'' then str ''./'' @ filename else d) w)))"
  by (simp add: extract_apk_info_to_directory_def Let_def run_use_case_simps use_case_calls_def
      split: prod.splits option.splits)

lemma executed_map_Execute: "executed (map Execute us) = us"
  by (induction us) simp_all

lemma printed_map_Execute: "printed (map Execute us) = []"
  by (induction us) simp_all

lemma makedirs_calls_map_Execute: "makedirs_calls (map Execute us) = []"
  by (induction us) simp_all

lemma constructed_map_Execute: "constructed (map Execute us) = []"
  by (induction us) simp_all

lemma main_parsed:
  "get_args argv = Inr a \<Longrightarrow>
   main environ argv w =
     (let w0 = (if verbose a then w\<lparr>logger_level := DEBUG\<rparr> else w);
          r = read_target_file environ (target a) (no_string_processing a) w0
      in case fst r of
           Inl e \<Rightarrow> (Raised e, snd r)
         | Inr None \<Rightarrow> (Returned 1, snd r)
         | Inr (Some apk) \<Rightarrow>
             (case target_output_directory a of
                None \<Rightarrow> (Returned 0, print_apk_info environ apk (snd r))
              | Some d \<Rightarrow>
                  (case fst (extract_apk_info_to_directory environ apk (target a)
                              (get_apk_filename_without_extension (target a)) d (snd r)) of
                     Some e \<Rightarrow>
                       (Raised e,
                        snd (extract_apk_info_to_directory environ apk (target a)
                              (get_apk_filename_without_extension (target a)) d (snd r)))
                   | None \<Rightarrow>
                       (Returned 0,
                        snd (extract_apk_info_to_directory environ apk (target a)
                              (get_apk_filename_without_extension (target a)) d (snd r))))))"
  by (simp add: main_def Let_def split: prod.splits sum.splits option.splits)

lemma verbose_world_simps:
  "filesystem (if v then w\<lparr>logger_level := DEBUG\<rparr> else w) = filesystem w"
  "trace (if v then w\<lparr>logger_level := DEBUG\<rparr> else w) = trace w"
  by simp_all

lemma create_observe:
  "printed (trace (snd (create_output_directory_if_needed environ d w))) = printed (trace w)"
  "executed (trace (snd (create_output_directory_if_needed environ d w))) = executed (trace w)"
  "constructed (trace (snd (create_output_directory_if_needed environ d w))) =
     constructed (trace w)"
  by (simp_all add: create_output_directory_if_needed_trace observe_append)

lemma read_target_file_observe:
  "printed (trace (snd (read_target_file environ filepath b w))) = printed (trace w)"
  "executed (trace (snd (read_target_file environ filepath b w))) = executed (trace w)"
  "makedirs_calls (trace (snd (read_target_file environ filepath b w))) =
     makedirs_calls (trace w)"
  "constructed (trace (snd (read_target_file environ filepath b w))) =
     constructed (trace w) @ [(filepath, b)]"
  by (simp_all add: read_target_file_trace observe_append split: sum.splits exn.splits)

lemma extract_observe:
  "printed (trace (snd (extract_apk_info_to_directory environ apk filepath filename d w))) =
     printed (trace w)"
  "executed (trace (snd (extract_apk_info_to_directory environ apk filepath filename d w))) =
     executed (trace w) @
     (case directory_step_outcome environ (filesystem w)
             (if d = str ''./'' then str ''./'' @ filename else d) of
        None \<Rightarrow>
          use_case_calls apk filepath filename
            (if d = str ''./'' then str ''./'' @ filename else d)
      | Some e \<Rightarrow> [])"
  "constructed (trace (snd (extract_apk_info_to_directory environ apk filepath filename d w))) =
     constructed (trace w)"
  by (simp_all add: extract_apk_info_to_directory_trace observe_append create_observe
      executed_map_Execute printed_map_Execute constructed_map_Execute
      create_output_directory_if_needed_fst split: option.splits)

lemma extract_outcome:
  "fst (extract_apk_info_to_directory environ apk filepath filename d w) =
     directory_step_outcome environ (filesystem w)
       (if d = str ''./'' then str ''./'' @ filename else d)"
  by (simp add: extract_apk_info_to_directory_fst create_output_directory_if_needed_fst)

lemma extract_apk_info_to_directory_raises:
  "fst (create_output_directory_if_needed environ
          (if d = str ''./'' then str ''./'' @ filename else d) w) = Some e \<Longrightarrow>
     extract_apk_info_to_directory environ apk filepath filename d w =
       (Some e, snd (create_output_directory_if_needed environ
          (if d = str ''./'' then str ''./'' @ filename else d) w))"
  by (cases "d = str ''./''")
    (auto simp: extract_apk_info_to_directory_def Let_def split: prod.splits option.splits)

section \<open>What the description says of the APK class\<close>

lemma classify_disabled: "classify u s string_table False = ([], [])"
  by (simp add: classify_def)

lemma classify_enabled:
  "classify u s string_table True = (urls, shell_commands) \<Longrightarrow>
     (\<forall>x\<in>set urls. x \<in> set string_table \<and> u x) \<and>
     (\<forall>x\<in>set shell_commands. x \<in> set string_table \<and> s x \<and> \<not> u x)"
  by (auto simp: classify_def)

lemma build_classified:
  "build dec filename input enabled = Inr p \<Longrightarrow> (pkg_classified p \<noteq> None) = enabled"
  by (auto simp: build_def split: option.splits if_splits sum.splits)

lemma build_classified_sound:
  "build dec filename input enabled = Inr p \<Longrightarrow> pkg_classified p = Some (urls, shell_commands) \<Longrightarrow>
     (\<forall>x\<in>set urls. url_pattern dec x) \<and>
     (\<forall>x\<in>set shell_commands. shell_command_pattern dec x \<and> \<not> url_pattern dec x)"
  by (auto simp: build_def classify_def split: option.splits if_splits sum.splits)

lemma keys_APK_dump:
  "keys (APK_dump p) =
     [''file_name'', ''size'', ''md5'', ''sha1'', ''sha256'', ''manifest'', ''cert'', ''dex''] @
     (if pkg_classified p = None then [] else [''urls'', ''shell_commands''])"
  by (simp add: APK_dump_def split: option.splits)

lemma main_status_1:
  assumes "get_args argv = Inr a"
  shows "fst (main environ argv w) = Returned 1 \<longleftrightarrow>
           APK environ (filesystem w) (target a) (no_string_processing a) = Inl APKParsingError \<or>
           APK environ (filesystem w) (target a) (no_string_processing a) = Inl ParsingError"
  by (simp add: main_parsed [OF assms] Let_def read_target_file_fst
      split: sum.splits exn.splits option.splits)

lemma main_prints:
  assumes "get_args argv = Inr a"
    and "target_output_directory a = None"
    and "APK environ (filesystem w) (target a) (no_string_processing a) = Inr apk"
  shows "fst (main environ argv w) = Returned 0"
    and "printed (trace (snd (main environ argv w))) =
           printed (trace w) @ [json_dumps environ (dump environ apk)]"
    and "executed (trace (snd (main environ argv w))) = executed (trace w)"
    and "makedirs_calls (trace (snd (main environ argv w))) = makedirs_calls (trace w)"
    and "filesystem (snd (main environ argv w)) = filesystem w"
  using assms(2,3)
  by (simp_all add: main_parsed [OF assms(1)] Let_def read_target_file_fst print_apk_info_simps
      observe_append read_target_file_observe read_target_file_filesystem)

lemma main_constructed:
  assumes "get_args argv = Inr a"
  shows "constructed (trace (snd (main environ argv w))) =
           constructed (trace w) @ [(target a, no_string_processing a)]"
  by (simp add: main_parsed [OF assms] Let_def print_apk_info_simps observe_append
      extract_observe read_target_file_observe split: sum.splits option.splits)

section \<open>The example environment\<close>

lemma get_args_example_print:
  "get_args [Positional (str ''app.apk'')] =
     Inr \<lparr>target = str ''app.apk'', target_output_directory = None,
          no_string_processing = True, verbose = False\<rparr>"
  by (simp add: get_args_def defaults_def)

lemma get_args_example_flag:
  "get_args [NoStringProcessing, Positional (str ''app.apk'')] =
     Inr \<lparr>target = str ''app.apk'', target_output_directory = None,
          no_string_processing = False, verbose = False\<rparr>"
  by (simp add: get_args_def defaults_def)

lemma get_args_example_extract:
  "get_args [Positional (str ''app.apk''), Extract None] =
     Inr \<lparr>target = str ''app.apk'', target_output_directory = Some (str ''./''),
          no_string_processing = True, verbose = False\<rparr>"
  by (simp add: get_args_def defaults_def)

lemma get_args_example_extract_to:
  "get_args [Positional (str ''app.apk''), Extract (Some (str ''out''))] =
     Inr \<lparr>target = str ''app.apk'', target_output_directory = Some (str ''out''),
          no_string_processing = True, verbose = False\<rparr>"
  by (simp add: get_args_def defaults_def)

lemma get_args_example_extract_empty:
  "get_args [Positional (str ''app.apk''), Extract (Some [])] =
     Inr \<lparr>target = str ''app.apk'', target_output_directory = Some [],
          no_string_processing = True, verbose = False\<rparr>"
  by (simp add: get_args_def defaults_def)


lemma example_world_simps:
  "trace example_world = []"
  "logger_level example_world = INFO"
  "filesystem example_world =
     [(str ''app.apk'', Some [0x50, 0x4B, 0x05, 0x06]), (str ''notes.txt'', Some [0x68, 0x69])]"
  by (simp_all add: example_world_def)

lemma example_env_simps:
  "APK example_env = APK_constructor example_decoders"
  "dump example_env = APK_dump"
  "json_dumps example_env = (\<lambda>j. concat (map str (keys j)))"
  "path_exists example_env = (\<lambda>files p. p \<in> set (map fst files))"
  "makedirs example_env =
     (\<lambda>files p. if p = [] then (Some OSError, files) else (None, files @ [(p, None)]))"
  by (simp_all add: example_env_def)

lemma example_APK_app:
  "APK_constructor example_decoders
     [(str ''app.apk'', Some [0x50, 0x4B, 0x05, 0x06]), (str ''notes.txt'', Some [0x68, 0x69])]
     (str ''app.apk'') b = Inr (example_package b)"
  by (simp add: APK_constructor_def build_def example_decoders_def container_reader_open_def
      find_end_of_central_directory_def signature_at_def EOCD_SIGNATURE_def classify_def
      example_package_def str_def)

lemma example_APK_notes:
  "APK_constructor example_decoders
     [(str ''app.apk'', Some [0x50, 0x4B, 0x05, 0x06]), (str ''notes.txt'', Some [0x68, 0x69])]
     (str ''notes.txt'') b = Inl APKParsingError"
  by (simp add: APK_constructor_def build_def example_decoders_def container_reader_open_def
      find_end_of_central_directory_def str_def)

lemma example_APK_nope:
  "APK_constructor example_decoders
     [(str ''app.apk'', Some [0x50, 0x4B, 0x05, 0x06]), (str ''notes.txt'', Some [0x68, 0x69])]
     (str ''nope.apk'') b = Inl ParsingError"
  by (simp add: APK_constructor_def build_def example_decoders_def str_def)

lemma filename_app: "get_apk_filename_without_extension (str ''app.apk'') = str ''app''"
  by (simp add: get_apk_filename_without_extension_def basename_def rfind_def
      slice_to_minus_def sre_lower_unicode_def str_def)

lemma example_directory_step:
  "directory_step_outcome example_env (filesystem example_world) [] = Some OSError"
  "directory_step_outcome example_env (filesystem example_world) (str ''./app'') = None"
  "directory_step_outcome example_env (filesystem example_world) (str ''out'') = None"
  by (simp_all add: directory_step_outcome_def example_env_simps example_world_simps str_def)

lemmas example_simps =
  example_world_simps example_env_simps example_APK_app example_APK_notes example_APK_nope

section \<open>Reading the target\<close>

text \<open>
  Claim C1. For every target file path, \<open>read_target_file\<close> tells the two failures
  apart. If the \<open>APK\<close> constructor raises \<open>APKParsingError\<close>, it logs the error that the
  target must be an APK package and returns \<open>None\<close>; if the constructor raises a
  \<open>ParsingError\<close> that is not an \<open>APKParsingError\<close>, it logs the error that the target
  must be an existing, readable file and returns \<open>None\<close>; if the constructor succeeds,
  it returns the object and logs no error. The two messages differ. (The debug record
  \<open>Reading ...\<close> precedes them when the logger is at level \<open>DEBUG\<close>.)
\<close>

theorem read_target_file_distinguishes_failures:
  "(APK environ (filesystem w) filepath b = Inl APKParsingError \<longrightarrow>
      fst (read_target_file environ filepath b w) = Inr None \<and>
      logged (trace (snd (read_target_file environ filepath b w))) =
        logged (trace w) @
        (if logger_level w = DEBUG then [(DEBUG, reading_message filepath)] else []) @
        [(ERROR, must_be_apk_message filepath)]) \<and>
   (APK environ (filesystem w) filepath b = Inl ParsingError \<longrightarrow>
      fst (read_target_file environ filepath b w) = Inr None \<and>
      logged (trace (snd (read_target_file environ filepath b w))) =
        logged (trace w) @
        (if logger_level w = DEBUG then [(DEBUG, reading_message filepath)] else []) @
        [(ERROR, must_be_file_message filepath)]) \<and>
   (\<forall>apk. APK environ (filesystem w) filepath b = Inr apk \<longrightarrow>
      fst (read_target_file environ filepath b w) = Inr (Some apk) \<and>
      logged (trace (snd (read_target_file environ filepath b w))) =
        logged (trace w) @
        (if logger_level w = DEBUG then [(DEBUG, reading_message filepath)] else [])) \<and>
   must_be_apk_message filepath \<noteq> must_be_file_message filepath"
  by (simp add: read_target_file_fst read_target_file_trace observe_append messages_differ)

theorem read_target_file_distinguishes_failures_witness:
  "fst (read_target_file example_env (str ''notes.txt'') True example_world) = Inr None \<and>
   logged (trace (snd (read_target_file example_env (str ''notes.txt'') True example_world))) =
     [(ERROR, must_be_apk_message (str ''notes.txt''))] \<and>
   fst (read_target_file example_env (str ''nope.apk'') True example_world) = Inr None \<and>
   logged (trace (snd (read_target_file example_env (str ''nope.apk'') True example_world))) =
     [(ERROR, must_be_file_message (str ''nope.apk''))] \<and>
   fst (read_target_file example_env (str ''app.apk'') True example_world) =
     Inr (Some (example_package True)) \<and>
   logged (trace (snd (read_target_file example_env (str ''app.apk'') True example_world))) = []"
  using
    read_target_file_distinguishes_failures [of example_env example_world "str ''notes.txt''" True]
    read_target_file_distinguishes_failures [of example_env example_world "str ''nope.apk''" True]
    read_target_file_distinguishes_failures [of example_env example_world "str ''app.apk''" True]
  by (simp add: example_simps)

section \<open>The command line and \<open>main\<close>\<close>

text \<open>
  Claim C2. For every command line that \<open>parse_args\<close> accepts, \<open>main\<close> calls the \<open>APK\<close>
  constructor once, with the target and with \<open>True\<close> as its second argument when
  \<open>--no-string-processing\<close> does not occur on the line, and \<open>False\<close> when it does, and
  what \<open>main\<close> does next depends on the outcome of that very call: it returns 1 exactly
  when the call raises one of the two parsing errors, and in print mode it prints the
  dump of the object the call built. With the constructor and the \<open>dump\<close> of the
  description: when the flag is omitted, string processing is enabled, the object
  holds the URL and shell-command candidates (strings that the respective pattern
  matches) and its dump has the keys \<open>urls\<close> and \<open>shell_commands\<close>; when the flag is
  given, the object holds none and the dump has neither key. A disabled classifier
  returns two empty lists whatever the patterns and the strings are.
\<close>

theorem string_processing_flag_reaches_APK:
  assumes "get_args argv = Inr a"
    and "APK environ = APK_constructor dec"
    and "dump environ = APK_dump"
  shows
   "no_string_processing a = (NoStringProcessing \<notin> set argv) \<and>
    constructed (trace (snd (main environ argv w))) =
      constructed (trace w) @ [(target a, NoStringProcessing \<notin> set argv)] \<and>
    (fst (main environ argv w) = Returned 1 \<longleftrightarrow>
       APK_constructor dec (filesystem w) (target a) (NoStringProcessing \<notin> set argv) =
         Inl APKParsingError \<or>
       APK_constructor dec (filesystem w) (target a) (NoStringProcessing \<notin> set argv) =
         Inl ParsingError) \<and>
    (\<forall>apk. APK_constructor dec (filesystem w) (target a) (NoStringProcessing \<notin> set argv) =
         Inr apk \<longrightarrow>
       (target_output_directory a = None \<longrightarrow>
          printed (trace (snd (main environ argv w))) =
            printed (trace w) @ [json_dumps environ (APK_dump apk)]) \<and>
       (NoStringProcessing \<notin> set argv \<longrightarrow>
          (\<exists>urls shell_commands.
             pkg_classified apk = Some (urls, shell_commands) \<and>
             (\<forall>x\<in>set urls. url_pattern dec x) \<and>
             (\<forall>x\<in>set shell_commands. shell_command_pattern dec x \<and> \<not> url_pattern dec x)) \<and>
          ''urls'' \<in> set (keys (APK_dump apk)) \<and>
          ''shell_commands'' \<in> set (keys (APK_dump apk))) \<and>
       (NoStringProcessing \<in> set argv \<longrightarrow>
          pkg_classified apk = None \<and>
          ''urls'' \<notin> set (keys (APK_dump apk)) \<and>
          ''shell_commands'' \<notin> set (keys (APK_dump apk)))) \<and>
    classify (url_pattern dec) (shell_command_pattern dec) string_table False = ([], [])"
proof -
  let ?flag = "NoStringProcessing \<notin> set argv"
  have flag: "no_string_processing a = ?flag"
    using assms(1) by (rule get_args_no_string_processing)
  have c: "constructed (trace (snd (main environ argv w))) =
      constructed (trace w) @ [(target a, ?flag)]"
    using main_constructed [OF assms(1), of environ w] flag by simp
  have s: "fst (main environ argv w) = Returned 1 \<longleftrightarrow>
       APK_constructor dec (filesystem w) (target a) ?flag = Inl APKParsingError \<or>
       APK_constructor dec (filesystem w) (target a) ?flag = Inl ParsingError"
    using main_status_1 [OF assms(1), of environ w] flag assms(2) by simp
  have p: "printed (trace (snd (main environ argv w))) =
            printed (trace w) @ [json_dumps environ (APK_dump apk)]"
    if "APK_constructor dec (filesystem w) (target a) ?flag = Inr apk"
      and "target_output_directory a = None" for apk
    using main_prints(2) [OF assms(1) that(2), of environ w apk] that(1) flag assms(2,3)
    by simp
  have on: "(\<exists>urls shell_commands.
             pkg_classified apk = Some (urls, shell_commands) \<and>
             (\<forall>x\<in>set urls. url_pattern dec x) \<and>
             (\<forall>x\<in>set shell_commands. shell_command_pattern dec x \<and> \<not> url_pattern dec x)) \<and>
          ''urls'' \<in> set (keys (APK_dump apk)) \<and>
          ''shell_commands'' \<in> set (keys (APK_dump apk))"
    if b: "APK_constructor dec (filesystem w) (target a) ?flag = Inr apk" and f: "?flag" for apk
  proof -
    from b have bb: "build dec (target a) (read_input dec (filesystem w) (target a)) ?flag = Inr apk"
      by (simp add: APK_constructor_def)
    from build_classified [OF bb] f have "pkg_classified apk \<noteq> None" by simp
    then obtain urls shell_commands where cl: "pkg_classified apk = Some (urls, shell_commands)"
      by (cases "pkg_classified apk") auto
    from build_classified_sound [OF bb cl] cl show ?thesis
      by (simp add: keys_APK_dump)
  qed
  have off: "pkg_classified apk = None \<and>
          ''urls'' \<notin> set (keys (APK_dump apk)) \<and>
          ''shell_commands'' \<notin> set (keys (APK_dump apk))"
    if b: "APK_constructor dec (filesystem w) (target a) ?flag = Inr apk" and f: "\<not> ?flag" for apk
  proof -
    from b have bb: "build dec (target a) (read_input dec (filesystem w) (target a)) ?flag = Inr apk"
      by (simp add: APK_constructor_def)
    from build_classified [OF bb] f have "pkg_classified apk = None"
      by (cases "pkg_classified apk") simp_all
    then show ?thesis by (simp add: keys_APK_dump)
  qed
  show ?thesis
    using flag c s p on off classify_disabled by blast
qed

theorem string_processing_flag_reaches_APK_witness:
  "constructed (trace (snd (main example_env [Positional (str ''app.apk'')] example_world))) =
     [(str ''app.apk'', True)] \<and>
   printed (trace (snd (main example_env [Positional (str ''app.apk'')] example_world))) =
     [json_dumps example_env (APK_dump (example_package True))] \<and>
   pkg_classified (example_package True) = Some ([str ''http://a.b''], [str ''su'']) \<and>
   ''urls'' \<in> set (keys (APK_dump (example_package True))) \<and>
   constructed (trace (snd (main example_env
       [NoStringProcessing, Positional (str ''app.apk'')] example_world))) =
     [(str ''app.apk'', False)] \<and>
   printed (trace (snd (main example_env
       [NoStringProcessing, Positional (str ''app.apk'')] example_world))) =
     [json_dumps example_env (APK_dump (example_package False))] \<and>
   pkg_classified (example_package False) = None \<and>
   ''urls'' \<notin> set (keys (APK_dump (example_package False)))"
  using
    string_processing_flag_reaches_APK [OF get_args_example_print example_env_simps(1,2), of example_world]
    string_processing_flag_reaches_APK [OF get_args_example_flag example_env_simps(1,2), of example_world]
  by (simp add: example_world_simps example_APK_app) (simp add: example_package_def)






section \<open>Extraction\<close>

text \<open>
  Claim C5, with the condition that \<open>os.makedirs\<close> imposes. When the output directory exists or \<open>os.makedirs\<close> makes it,
  \<open>extract_apk_info_to_directory\<close> returns, having run each of the six use cases
  exactly once, in this order: apktool and dex2jar with the file path (dex2jar with the
  file name too) and the output directory, then the certificate and the dex extractor
  with the \<open>APK\<close> and the output directory, then the HTML and the JSON report with the
  \<open>APK\<close>, the file name and the output directory. When \<open>os.makedirs\<close> raises, the
  exception leaves the function and no use case has run.
\<close>

theorem extract_runs_each_use_case_once_in_order:
  "(let output_directory = (if d = str ''./'' then d @ filename else d);
        r = extract_apk_info_to_directory environ apk filepath filename d w
    in (directory_step_outcome environ (filesystem w) output_directory = None \<longrightarrow>
          fst r = None \<and>
          executed (trace (snd r)) =
            executed (trace w) @
            [LaunchApkTool filepath output_directory,
             LaunchDex2Jar filepath filename output_directory,
             ExtractCertificateFile apk output_directory,
             ExtractDexFile apk output_directory,
             GetApkInfoInHtml apk filename output_directory,
             GetApkInfoInJson apk filename output_directory]) \<and>
       (\<forall>e. directory_step_outcome environ (filesystem w) output_directory = Some e \<longrightarrow>
          fst r = Some e \<and> executed (trace (snd r)) = executed (trace w)))"
  by (simp add: Let_def extract_observe extract_outcome use_case_calls_def)

theorem extract_runs_each_use_case_once_in_order_witness:
  "fst (extract_apk_info_to_directory example_env (example_package True)
      (str ''dir/app.apk'') (str ''app'') (str ''./'') example_world) = None \<and>
   executed (trace (snd (extract_apk_info_to_directory example_env (example_package True)
      (str ''dir/app.apk'') (str ''app'') (str ''./'') example_world))) =
     [LaunchApkTool (str ''dir/app.apk'') (str ''./app''),
      LaunchDex2Jar (str ''dir/app.apk'') (str ''app'') (str ''./app''),
      ExtractCertificateFile (example_package True) (str ''./app''),
      ExtractDexFile (example_package True) (str ''./app''),
      GetApkInfoInHtml (example_package True) (str ''app'') (str ''./app''),
      GetApkInfoInJson (example_package True) (str ''app'') (str ''./app'')] \<and>
   fst (extract_apk_info_to_directory example_env (example_package True)
      (str ''dir/app.apk'') (str ''app'') [] example_world) = Some OSError \<and>
   executed (trace (snd (extract_apk_info_to_directory example_env (example_package True)
      (str ''dir/app.apk'') (str ''app'') [] example_world))) = []"
proof -
  have d: "str ''./'' @ str ''app'' = str ''./app''" "[] \<noteq> str ''./''"
    by (simp_all add: str_def)
  show ?thesis
    using
      extract_runs_each_use_case_once_in_order [where d = "str ''./''" and filename = "str ''app''" and environ = example_env
        and w = example_world and apk = "example_package True"
        and filepath = "str ''dir/app.apk''"]
      extract_runs_each_use_case_once_in_order [where d = "[]" and filename = "str ''app''" and environ = example_env
        and w = example_world and apk = "example_package True"
        and filepath = "str ''dir/app.apk''"]
    by (simp add: Let_def d example_directory_step example_world_simps(1))
qed

text \<open>
  Without that condition the statement is false: that every use case is invoked once
  for every parsed \<open>APK\<close> fails for the output directory \<open>''\<close>, where \<open>os.makedirs('')\<close>
  raises and no use case is invoked.
\<close>

theorem extract_runs_each_use_case_once_in_order_counterexample:
  "fst (extract_apk_info_to_directory example_env (example_package True)
      (str ''app.apk'') (str ''app'') [] example_world) = Some OSError \<and>
   executed (trace (snd (extract_apk_info_to_directory example_env (example_package True)
      (str ''app.apk'') (str ''app'') [] example_world))) = []"
proof -
  have d: "[] \<noteq> str ''./''" by (simp add: str_def)
  show ?thesis
    by (simp add: extract_observe extract_outcome d example_directory_step
        example_world_simps(1))
qed

text \<open>
  Claim C9, with the condition that \<open>os.makedirs\<close> imposes. When the last \<open>--extract\<close> of the command line has no value, or
  the value \<open>./\<close>, the output directory is \<open>./\<close> followed by the file name without
  extension; any other value is the output directory as it is. Every use case that
  runs gets that directory, and all six run when the directory exists or \<open>os.makedirs\<close>
  makes it; when \<open>os.makedirs\<close> raises, no use case gets it.
\<close>

theorem output_directory_passed_to_use_cases:
  assumes "get_args argv = Inr a"
    and "APK environ (filesystem w) (target a) (no_string_processing a) = Inr apk"
    and "last_extract argv = Some v"
  shows
   "(let output_directory =
           (case v of
              None \<Rightarrow> str ''./'' @ get_apk_filename_without_extension (target a)
            | Some d \<Rightarrow>
                if d = str ''./''
                then str ''./'' @ get_apk_filename_without_extension (target a)
                else d)
     in map output_directory_of (executed (trace (snd (main environ argv w)))) =
          map output_directory_of (executed (trace w)) @
          (if directory_step_outcome environ (filesystem w) output_directory = None
           then replicate 6 output_directory
           else []))"
proof -
  have tod: "target_output_directory a = Some (case v of None \<Rightarrow> str ''./'' | Some d \<Rightarrow> d)"
    using get_args_target_output_directory [OF assms(1)] assms(3)
    by (simp split: option.splits)
  show ?thesis
    using assms(2) tod
    by (cases v)
      (auto simp: main_parsed [OF assms(1)] Let_def read_target_file_fst extract_observe
        extract_outcome read_target_file_observe read_target_file_filesystem
        use_case_calls_def numeral_eq_Suc split: option.splits)
qed

theorem output_directory_passed_to_use_cases_witness:
  "map output_directory_of (executed (trace (snd (main example_env
      [Positional (str ''app.apk''), Extract None] example_world)))) =
     replicate 6 (str ''./app'') \<and>
   map output_directory_of (executed (trace (snd (main example_env
      [Positional (str ''app.apk''), Extract (Some (str ''out''))] example_world)))) =
     replicate 6 (str ''out'')"
proof -
  have 1: "last_extract [Positional (str ''app.apk''), Extract None] = Some None"
    by simp
  have 2: "last_extract [Positional (str ''app.apk''), Extract (Some (str ''out''))] =
      Some (Some (str ''out''))"
    by simp
  have d: "str ''out'' \<noteq> str ''./''" "str ''./'' @ str ''app'' = str ''./app''"
    by (simp_all add: str_def)
  show ?thesis
    using
      output_directory_passed_to_use_cases [OF get_args_example_extract _ 1, of example_env example_world "example_package True"]
      output_directory_passed_to_use_cases [OF get_args_example_extract_to _ 2, of example_env example_world
        "example_package True"]
    by (simp add: example_simps filename_app d Let_def
        example_directory_step [unfolded example_world_simps])
qed

text \<open>
  Without that condition the statement is false: that any other explicitly given
  directory string is passed to the use cases fails for \<open>--extract ''\<close>. The empty
  string is not \<open>./\<close>, the target is parsed, and the string is passed to no use case.
\<close>

theorem output_directory_passed_to_use_cases_counterexample:
  "last_extract [Positional (str ''app.apk''), Extract (Some [])] = Some (Some []) \<and>
   [] \<noteq> str ''./'' \<and>
   fst (read_target_file example_env (str ''app.apk'') True example_world) =
     Inr (Some (example_package True)) \<and>
   map output_directory_of (executed (trace (snd (main example_env
      [Positional (str ''app.apk''), Extract (Some [])] example_world)))) = []"
  by (simp add: get_args_example_extract_empty main_parsed Let_def read_target_file_fst
      read_target_file_filesystem read_target_file_observe extract_observe extract_outcome
      example_simps filename_app example_directory_step [unfolded example_world_simps])
    (simp add: str_def)

text \<open>
  Claim C10. \<open>create_output_directory_if_needed\<close> calls \<open>os.makedirs\<close> only when the
  path does not exist: when the path exists it returns with the world unchanged; when
  it does not, \<open>os.makedirs\<close> is called once on the path, and its outcome and the file
  system it leaves are those of the step. The step runs no use case, and in
  \<open>extract_apk_info_to_directory\<close> it comes before them: when the step returns, the
  trace is that of the step followed by the six calls, which work on the file system
  the step has left; when it raises, the function ends there.
\<close>

theorem create_output_directory_if_needed_frame:
  "(path_exists environ (filesystem w) d \<longrightarrow>
      create_output_directory_if_needed environ d w = (None, w)) \<and>
   (\<not> path_exists environ (filesystem w) d \<longrightarrow>
      fst (create_output_directory_if_needed environ d w) =
        fst (makedirs environ (filesystem w) d) \<and>
      filesystem (snd (create_output_directory_if_needed environ d w)) =
        snd (makedirs environ (filesystem w) d) \<and>
      makedirs_calls (trace (snd (create_output_directory_if_needed environ d w))) =
        makedirs_calls (trace w) @ [d]) \<and>
   executed (trace (snd (create_output_directory_if_needed environ d w))) =
     executed (trace w) \<and>
   (let output_directory = (if d = str ''./'' then d @ filename else d);
        step = create_output_directory_if_needed environ output_directory w;
        calls = use_case_calls apk filepath filename output_directory;
        r = extract_apk_info_to_directory environ apk filepath filename d w
    in (fst step = None \<longrightarrow>
          fst r = None \<and>
          trace (snd r) = trace (snd step) @ map Execute calls \<and>
          filesystem (snd r) = fold (execute environ) calls (filesystem (snd step))) \<and>
       (\<forall>e. fst step = Some e \<longrightarrow> r = (Some e, snd step)))"
proof -
  have 1: "path_exists environ (filesystem w) d \<longrightarrow>
      create_output_directory_if_needed environ d w = (None, w)"
    by (simp add: create_output_directory_if_needed_def)
  have 2: "\<not> path_exists environ (filesystem w) d \<longrightarrow>
      fst (create_output_directory_if_needed environ d w) =
        fst (makedirs environ (filesystem w) d) \<and>
      filesystem (snd (create_output_directory_if_needed environ d w)) =
        snd (makedirs environ (filesystem w) d) \<and>
      makedirs_calls (trace (snd (create_output_directory_if_needed environ d w))) =
        makedirs_calls (trace w) @ [d]"
    by (simp add: create_output_directory_if_needed_filesystem
        create_output_directory_if_needed_trace create_output_directory_if_needed_fst
        directory_step_outcome_def observe_append)
  have 3: "executed (trace (snd (create_output_directory_if_needed environ d w))) =
     executed (trace w)"
    by (rule create_observe)
  have 4: "(let output_directory = (if d = str ''./'' then d @ filename else d);
        step = create_output_directory_if_needed environ output_directory w;
        calls = use_case_calls apk filepath filename output_directory;
        r = extract_apk_info_to_directory environ apk filepath filename d w
    in (fst step = None \<longrightarrow>
          fst r = None \<and>
          trace (snd r) = trace (snd step) @ map Execute calls \<and>
          filesystem (snd r) = fold (execute environ) calls (filesystem (snd step))) \<and>
       (\<forall>e. fst step = Some e \<longrightarrow> r = (Some e, snd step)))"
    unfolding Let_def
    using extract_apk_info_to_directory_raises [of environ d filename w _ apk filepath]
    by (auto simp: extract_apk_info_to_directory_trace extract_apk_info_to_directory_filesystem
        extract_apk_info_to_directory_fst)
  from 1 2 3 4 show ?thesis by blast
qed

theorem create_output_directory_if_needed_frame_witness:
  "create_output_directory_if_needed example_env (str ''notes.txt'') example_world =
     (None, example_world) \<and>
   fst (create_output_directory_if_needed example_env (str ''out'') example_world) = None \<and>
   filesystem (snd (create_output_directory_if_needed example_env (str ''out'')
     example_world)) =
     [(str ''app.apk'', Some [0x50, 0x4B, 0x05, 0x06]), (str ''notes.txt'', Some [0x68, 0x69]),
      (str ''out'', None)] \<and>
   makedirs_calls (trace (snd (create_output_directory_if_needed example_env (str ''out'')
     example_world))) = [str ''out''] \<and>
   extract_apk_info_to_directory example_env (example_package True) (str ''app.apk'')
     (str ''app'') [] example_world =
     (Some OSError, snd (create_output_directory_if_needed example_env [] example_world))"
proof -
  have 1: "path_exists example_env (filesystem example_world) (str ''notes.txt'')"
    by (simp add: example_env_simps example_world_simps)
  have 2: "\<not> path_exists example_env (filesystem example_world) (str ''out'')"
    by (simp add: example_env_simps example_world_simps str_def)
  have 3: "fst (create_output_directory_if_needed example_env [] example_world) = Some OSError"
    by (simp add: create_output_directory_if_needed_fst example_directory_step)
  have d: "[] \<noteq> str ''./''" "str ''out'' \<noteq> []" by (simp_all add: str_def)
  show ?thesis
    using create_output_directory_if_needed_frame [of example_env example_world "str ''notes.txt''"] 1
      create_output_directory_if_needed_frame [of example_env example_world "str ''out''"] 2
      create_output_directory_if_needed_frame [where d = "[]" and filename = "str ''app''" and environ = example_env
        and w = example_world and apk = "example_package True"
        and filepath = "str ''app.apk''"] 3
    by (simp add: example_env_simps example_world_simps Let_def d)
qed

section \<open>The Container Reader: a buffer without the signature\<close>

lemma length_EOCD_SIGNATURE: "length EOCD_SIGNATURE = 4"
  by (simp add: EOCD_SIGNATURE_def)

lemma signature_at_sublist: "signature_at buffer i \<Longrightarrow> sublist EOCD_SIGNATURE buffer"
proof -
  assume "signature_at buffer i"
  then have "take 4 (drop i buffer) = EOCD_SIGNATURE" by (simp add: signature_at_def)
  moreover have "buffer = take i buffer @ take 4 (drop i buffer) @ drop 4 (drop i buffer)"
    by (simp only: append_take_drop_id)
  ultimately have "buffer = take i buffer @ EOCD_SIGNATURE @ drop 4 (drop i buffer)"
    by (simp only:)
  then show ?thesis unfolding sublist_def by (intro exI)
qed

lemma sublist_signature_at:
  assumes "sublist EOCD_SIGNATURE buffer"
  shows "\<exists>i. i + 4 \<le> length buffer \<and> signature_at buffer i"
proof -
  from assms obtain ps ss where b: "buffer = ps @ EOCD_SIGNATURE @ ss"
    unfolding sublist_def by blast
  have "signature_at buffer (length ps)"
    by (simp add: b signature_at_def length_EOCD_SIGNATURE)
  moreover have "length ps + 4 \<le> length buffer"
    by (simp add: b length_EOCD_SIGNATURE)
  ultimately show ?thesis by blast
qed

lemma scan_backward_None:
  "scan_backward buffer i = None \<longleftrightarrow> (\<forall>p\<le>i. \<not> signature_at buffer p)"
proof (induction i)
  case 0
  show ?case by simp
next
  case (Suc i)
  show ?case by (auto simp: Suc le_Suc_eq)
qed

lemma scan_backward_Some:
  "scan_backward buffer i = Some p \<Longrightarrow> p \<le> i \<and> signature_at buffer p"
  by (induction i) (auto split: if_splits)

lemma find_end_of_central_directory_None:
  "find_end_of_central_directory buffer = None \<longleftrightarrow> \<not> sublist EOCD_SIGNATURE buffer"
proof
  assume n: "find_end_of_central_directory buffer = None"
  show "\<not> sublist EOCD_SIGNATURE buffer"
  proof
    assume "sublist EOCD_SIGNATURE buffer"
    then obtain i where i: "i + 4 \<le> length buffer" "signature_at buffer i"
      using sublist_signature_at by blast
    then have "\<not> length buffer < 4" and "i \<le> length buffer - 4" by simp_all
    with n i(2) show False
      by (simp add: find_end_of_central_directory_def scan_backward_None)
  qed
next
  assume a: "\<not> sublist EOCD_SIGNATURE buffer"
  then have "\<forall>p. \<not> signature_at buffer p" using signature_at_sublist by blast
  then show "find_end_of_central_directory buffer = None"
    by (simp add: find_end_of_central_directory_def scan_backward_None)
qed

lemma found_signature_is_passed_on:
  "sublist EOCD_SIGNATURE buffer \<Longrightarrow>
     \<exists>pos. signature_at buffer pos \<and>
       container_reader_open walk_central_directory buffer = walk_central_directory buffer pos"
proof -
  assume "sublist EOCD_SIGNATURE buffer"
  then have "find_end_of_central_directory buffer \<noteq> None"
    using find_end_of_central_directory_None [of buffer] by blast
  then obtain pos where p: "find_end_of_central_directory buffer = Some pos" by blast
  then have "signature_at buffer pos"
    by (auto simp: find_end_of_central_directory_def split: if_splits
        dest: scan_backward_Some)
  moreover from p have "container_reader_open walk_central_directory buffer =
      walk_central_directory buffer pos"
    by (simp add: container_reader_open_def)
  ultimately show ?thesis by blast
qed

text \<open>
  Claim C7. For every byte buffer that does not contain the end-of-central-directory
  signature, \<open>open\<close> of the Container Reader fails with \<open>NotAnArchive\<close>, whatever the
  walk over the central directory would do.
\<close>

theorem container_reader_open_not_an_archive:
  "\<not> sublist EOCD_SIGNATURE buffer \<Longrightarrow>
     container_reader_open walk_central_directory buffer = Inl NotAnArchive"
proof -
  assume "\<not> sublist EOCD_SIGNATURE buffer"
  then have "find_end_of_central_directory buffer = None"
    by (rule find_end_of_central_directory_None [THEN iffD2])
  then show ?thesis by (simp add: container_reader_open_def)
qed

theorem container_reader_open_not_an_archive_witness:
  "\<not> sublist EOCD_SIGNATURE [0x50, 0x4B, 0x03, 0x04, 0x14, 0x00] \<and>
   container_reader_open (\<lambda>buffer pos. Inr pos) [0x50, 0x4B, 0x03, 0x04, 0x14, 0x00] =
     Inl NotAnArchive"
proof -
  have n: "\<not> sublist EOCD_SIGNATURE [0x50, 0x4B, 0x03, 0x04, 0x14, 0x00]"
    by (simp add: EOCD_SIGNATURE_def sublist_Cons_right)
  from container_reader_open_not_an_archive [OF n] n show ?thesis by simp
qed

end
